theory Spec2Isabelle
  imports Main
begin

section \<open>Python values: exceptions and the built-in string operations\<close>

text \<open>
  A raise is a value: every function that can raise returns \<open>exn + 'a\<close>, with \<open>Inl\<close> the
  exception. \<open>StorageFault\<close> stands for whatever the storage driver raises.
\<close>

datatype exn = TypeError | KeyError string | StorageFault string

text \<open>A UUID is kept by its canonical text, which is what an f-string interpolates.\<close>

type_synonym asUUID = string

text \<open>\<open>d[key]\<close> on a dict: KeyError when the key is absent.\<close>

definition getitem :: "(string \<rightharpoonup> 'v) \<Rightarrow> string \<Rightarrow> exn + 'v" where
  "getitem d k = (case d k of None \<Rightarrow> Inl (KeyError k) | Some v \<Rightarrow> Inr v)"

text \<open>
  \<open>sep.join(items)\<close>: every item must be a \<open>str\<close>; an item that is \<open>None\<close> raises
  TypeError. \<open>None\<close> of Python is \<open>None\<close> of the option type.
\<close>

fun str_join :: "string \<Rightarrow> string option list \<Rightarrow> exn + string" where
  "str_join sep [] = Inr []"
| "str_join sep (None # xs) = Inl TypeError"
| "str_join sep (Some l # xs) =
     (if xs = [] then Inr l
      else (case str_join sep xs of Inl e \<Rightarrow> Inl e | Inr s \<Rightarrow> Inr (l @ sep @ s)))"

section \<open>schema/session/message.py: the message renderer\<close>

text \<open>
  Modelled from the spec: the \<open>Part\<close> class (schema/orm) is not among the sources. Section 3
  of the specification gives a part a kind, a string payload for \<open>text\<close>, a file name, and
  for \<open>tool-call\<close> a metadata mapping. The values of the mapping are arbitrary Python
  objects of type \<open>'v\<close>; the f-string turns them into text with Python's \<open>str\<close>, which every
  function below takes as the parameter \<open>fmt\<close>.
\<close>

record 'v Part =
  type_p :: string
  text_p :: string
  filename :: string
  meta :: "string \<rightharpoonup> 'v"

definition STRING_TYPES :: "string set" where
  "STRING_TYPES = {''text'', ''tool-call'', ''tool-result''}"

text \<open>
  The function has three \<open>if\<close> statements, each returning a line, and nothing after the
  last one: a part that passes all three guards makes it return \<open>None\<close>.
\<close>

definition pack_message_line :: "('v \<Rightarrow> string) \<Rightarrow> string \<Rightarrow> 'v Part \<Rightarrow> exn + string option" where
  "pack_message_line fmt role part =
     (if type_p part \<notin> STRING_TYPES then
        Inr (Some (''<'' @ role @ ''> ['' @ type_p part @ '' file: '' @ filename part @ '']''))
      else if type_p part = ''text'' then
        Inr (Some (''<'' @ role @ ''> '' @ text_p part))
      else if type_p part = ''tool-call'' then
        (case getitem (meta part) ''function_name'' of
           Inl e \<Rightarrow> Inl e
         | Inr f \<Rightarrow>
             (case getitem (meta part) ''parameters'' of
                Inl e \<Rightarrow> Inl e
              | Inr ps \<Rightarrow>
                  Inr (Some (''<'' @ role @ ''> USE TOOL '' @ fmt f @ '', WITH PARAMS '' @ fmt ps))))
      else Inr None)"

record 'v MessageBlob =
  message_id :: asUUID
  role :: string
  parts :: "'v Part list"

text \<open>
  The list comprehension of \<open>to_string\<close>: one call of \<open>pack_message_line\<close> per part, in
  part order, stopping at the first call that raises.
\<close>

fun pack_lines :: "('v \<Rightarrow> string) \<Rightarrow> string \<Rightarrow> 'v Part list \<Rightarrow> exn + string option list" where
  "pack_lines fmt r [] = Inr []"
| "pack_lines fmt r (p # ps) =
     (case pack_message_line fmt r p of
        Inl e \<Rightarrow> Inl e
      | Inr l \<Rightarrow> (case pack_lines fmt r ps of Inl e \<Rightarrow> Inl e | Inr ls \<Rightarrow> Inr (l # ls)))"

definition to_string :: "('v \<Rightarrow> string) \<Rightarrow> 'v MessageBlob \<Rightarrow> exn + string" where
  "to_string fmt self =
     (case pack_lines fmt (role self) (parts self) of
        Inl e \<Rightarrow> Inl e
      | Inr lines \<Rightarrow> str_join [CHR 0x0A] lines)"

text \<open>
  The transcript as the specification words it: the lines of the parts, in part order,
  with a newline between two neighbours.
\<close>

fun newline_joined :: "string list \<Rightarrow> string" where
  "newline_joined [] = []"
| "newline_joined [l] = l"
| "newline_joined (l # ls) = l @ [CHR 0x0A] @ newline_joined ls"

section \<open>schema/result.py: the Result wrapper\<close>

text \<open>
  Modelled from the spec: the \<open>Result\<close> class (schema/result) is not among the sources.
  Section 4.1 makes it exactly one of a success payload or a rejection carrying a list of
  error descriptions, and \<open>unpack\<close> returns the pair (payload or \<open>None\<close>, error list). The
  sources build a rejection with \<open>Result.reject(msg)\<close>, one description.
\<close>

datatype 'a Result = Resolve 'a | Reject "string list"

definition resolve :: "'a \<Rightarrow> 'a Result" where
  "resolve payload = Resolve payload"

definition reject :: "string \<Rightarrow> 'a Result" where
  "reject msg = Reject [msg]"

fun unpack :: "'a Result \<Rightarrow> 'a option \<times> string list" where
  "unpack (Resolve payload) = (Some payload, [])"
| "unpack (Reject errors) = (None, errors)"

section \<open>service/data/project.py: the project configuration\<close>

text \<open>
  Modelled from the spec: the \<open>Project\<close> row class (schema/orm) of the core is not among
  the sources. The function reads its \<open>id\<close> and its \<open>configs\<close>, a JSON object (a dict of
  values of type \<open>'j\<close>) or \<open>None\<close>.
\<close>

record 'j Project =
  id_p :: asUUID
  configs :: "(string \<rightharpoonup> 'j) option"

text \<open>
  The storage session, as far as the function uses it: either the projects table, or a
  fault that \<open>execute\<close> raises. \<open>select(Project).where(Project.id == project_id)\<close> keeps the
  rows with that id, and \<open>scalars().first()\<close> is the first of them or \<open>None\<close>.
\<close>

type_synonym 'j AsyncSession = "exn + 'j Project list"

definition execute_select_project :: "'j AsyncSession \<Rightarrow> asUUID \<Rightarrow> exn + 'j Project list" where
  "execute_select_project db_session project_id =
     (case db_session of
        Inl e \<Rightarrow> Inl e
      | Inr rows \<Rightarrow> Inr (filter (\<lambda>p. id_p p = project_id) rows))"

fun first :: "'a list \<Rightarrow> 'a option" where
  "first [] = None"
| "first (x # xs) = Some x"

text \<open>
  \<open>DEFAULT_PROJECT_CONFIG\<close> (util/config) and
  \<open>ProjectConfig(**filter_value_from_json(v, ProjectConfig))\<close> (schema/config) are not
  among the sources: the first is the parameter \<open>default_config\<close>, the second the
  parameter \<open>project_config_of\<close>, which may raise. \<open>not project.configs\<close> is true for
  \<open>None\<close> and for the empty dict.
\<close>

definition get_project_config ::
  "'c \<Rightarrow> ('j \<Rightarrow> exn + 'c) \<Rightarrow> 'j AsyncSession \<Rightarrow> asUUID \<Rightarrow> exn + 'c Result" where
  "get_project_config default_config project_config_of db_session project_id =
     (case execute_select_project db_session project_id of
        Inl e \<Rightarrow> Inl e
      | Inr rows \<Rightarrow>
          (case first rows of
             None \<Rightarrow> Inr (reject (''Project not found: '' @ project_id))
           | Some project \<Rightarrow>
               (case configs project of
                  None \<Rightarrow> Inr (resolve default_config)
                | Some d \<Rightarrow>
                    if d = Map.empty \<or> d ''project_config'' = None
                    then Inr (resolve default_config)
                    else (case getitem d ''project_config'' of
                            Inl e \<Rightarrow> Inl e
                          | Inr v \<Rightarrow>
                              (case project_config_of v of
                                 Inl e \<Rightarrow> Inl e
                               | Inr c \<Rightarrow> Inr (resolve c))))))"

section \<open>core/api.py: the health endpoint\<close>

text \<open>
  The three clients (acontext\_core.di) are not among the sources; the endpoint only
  awaits their \<open>health_check\<close>, whose answer is the field below.
\<close>

record client =
  health_check :: bool

definition health :: "client \<Rightarrow> client \<Rightarrow> client \<Rightarrow> string" where
  "health MQ_CLIENT DB_CLIENT S3_CLIENT =
     (if \<not> health_check MQ_CLIENT then ''MQ consumer error''
      else if \<not> health_check DB_CLIENT then ''DB client error''
      else if \<not> health_check S3_CLIENT then ''S3 client error''
      else ''ok'')"

section \<open>service/controller/message.py: the session processor\<close>

text \<open>
  Modelled from the spec: the message row class (schema/orm) and \<open>TaskStatus\<close>
  (schema/session/task) are not among the sources. Section 3 gives a message an
  identifier, a role, its ordered parts and a processing status from the enum below; the
  status column holds the member whose \<open>value\<close> the source assigns.
\<close>

datatype TaskStatus = PENDING | RUNNING | COMPLETED | FAILED

record 'v Message =
  id_m :: asUUID
  role_m :: string
  parts_m :: "'v Part list"
  session_task_process_status :: TaskStatus

text \<open>
  The rows are objects that the fetch hands out by reference and the loop mutates in
  place, so a storage session is a store from references to rows. The world the
  function runs in holds the committed rows, the log and the standard output.
\<close>

type_synonym ref = nat

type_synonym 'v session = "ref \<Rightarrow> 'v Message"

datatype log_record = LOG_error string "string list"

record 'v world =
  db :: "'v session"
  LOG :: "log_record list"
  stdout :: "string list"

text \<open>The loop \<open>for m in messages: m.session_task_process_status = RUNNING\<close>.\<close>

fun mark_running :: "ref list \<Rightarrow> 'v session \<Rightarrow> 'v session" where
  "mark_running [] s = s"
| "mark_running (m # ms) s =
     mark_running ms (s(m := (s m)\<lparr>session_task_process_status := RUNNING\<rparr>))"

text \<open>
  How the body of the \<open>async with\<close> block ends: by the \<open>return\<close> after the log call, or by
  reaching its last statement with \<open>messages_data\<close> built.
\<close>

datatype 'v body_exit = Return_None | Fall_through "'v MessageBlob list"

text \<open>
  The body of the \<open>async with\<close> block, on the open session. \<open>MD.fetch_session_messages\<close>
  (service/data/message) is not among the sources: it is the parameter \<open>fetch\<close>, called
  with the session, the session id and the status. The log record keeps the literal
  text of the f-string and the error list it interpolates. With an empty error list and
  no payload, \<open>for m in messages\<close> iterates over \<open>None\<close> and raises TypeError.
\<close>

definition with_body ::
  "('v session \<Rightarrow> asUUID \<Rightarrow> string \<Rightarrow> ref list Result) \<Rightarrow> asUUID \<Rightarrow> 'v session \<Rightarrow> log_record list
     \<Rightarrow> (exn + 'v body_exit) \<times> 'v session \<times> log_record list" where
  "with_body fetch session_id session lg =
     (let r = fetch session session_id ''pending'';
          (messages, eil) = unpack r
      in if eil \<noteq> [] then
           (Inr Return_None, session,
            lg @ [LOG_error ''Exception while fetching session messages: '' eil])
         else
           (case messages of
              None \<Rightarrow> (Inl TypeError, session, lg)
            | Some ms \<Rightarrow>
                (let session' = mark_running ms session;
                     messages_data =
                       map (\<lambda>m. \<lparr>message_id = id_m (session' m), role = role_m (session' m),
                                  parts = parts_m (session' m)\<rparr>) ms
                 in (Inr (Fall_through messages_data), session', lg))))"

text \<open>
  The loop \<open>for m in messages_data: print(m.to_string())\<close>, after the block: it stops at
  the first \<open>to_string\<close> that raises.
\<close>

fun print_all ::
  "('v \<Rightarrow> string) \<Rightarrow> 'v MessageBlob list \<Rightarrow> string list \<Rightarrow> (exn + unit) \<times> string list" where
  "print_all fmt [] out = (Inr (), out)"
| "print_all fmt (m # ms) out =
     (case to_string fmt m of
        Inl e \<Rightarrow> (Inl e, out)
      | Inr s \<Rightarrow> print_all fmt ms (out @ [s]))"

text \<open>
  Modelled from the spec: \<open>DB_CLIENT.get_session_context\<close> (infra/db) is not among the
  sources. Section 6 makes it a scoped transaction that commits or rolls back on exit:
  the block works on the rows as the session sees them, a normal exit (the \<open>return\<close>
  included) commits them, and an exception leaves the committed rows as they were.
\<close>

definition process_session_pending_message ::
  "('v \<Rightarrow> string) \<Rightarrow> ('v session \<Rightarrow> asUUID \<Rightarrow> string \<Rightarrow> ref list Result) \<Rightarrow> asUUID \<Rightarrow> 'v world
     \<Rightarrow> (exn + unit) \<times> 'v world" where
  "process_session_pending_message fmt fetch session_id w =
     (case with_body fetch session_id (db w) (LOG w) of
        (Inl e, session, lg) \<Rightarrow> (Inl e, w\<lparr>LOG := lg\<rparr>)
      | (Inr Return_None, session, lg) \<Rightarrow> (Inr (), w\<lparr>db := session, LOG := lg\<rparr>)
      | (Inr (Fall_through messages_data), session, lg) \<Rightarrow>
          (case print_all fmt messages_data (stdout w) of
             (r, out) \<Rightarrow> (r, w\<lparr>db := session, LOG := lg, stdout := out\<rparr>)))"

section \<open>The renderer on the object store\<close>

text \<open>
  The renderer once more, with the state it runs in made explicit. A \<open>Part\<close> and a
  \<open>MessageBlob\<close> are objects: the blob holds references to its parts, and the parts of
  a blob built by the session processor are the very objects of the storage row. The
  state is the store of these objects and the lines printed so far. Every attribute
  access of the source is a read of the store; each function returns the store it
  leaves behind next to its result.
\<close>

record MessageBlob_obj =
  message_id_obj :: asUUID
  role_obj :: string
  parts_obj :: "ref list"

record 'v heap =
  Part_objects :: "ref \<Rightarrow> 'v Part"
  MessageBlob_objects :: "ref \<Rightarrow> MessageBlob_obj"
  printed :: "string list"

definition pack_message_line_st ::
  "('v \<Rightarrow> string) \<Rightarrow> string \<Rightarrow> ref \<Rightarrow> 'v heap \<Rightarrow> (exn + string option) \<times> 'v heap" where
  "pack_message_line_st fmt r part h =
     (if type_p (Part_objects h part) \<notin> STRING_TYPES then
        (Inr (Some (''<'' @ r @ ''> ['' @ type_p (Part_objects h part) @ '' file: ''
                    @ filename (Part_objects h part) @ '']'')), h)
      else if type_p (Part_objects h part) = ''text'' then
        (Inr (Some (''<'' @ r @ ''> '' @ text_p (Part_objects h part))), h)
      else if type_p (Part_objects h part) = ''tool-call'' then
        (case getitem (meta (Part_objects h part)) ''function_name'' of
           Inl e \<Rightarrow> (Inl e, h)
         | Inr f \<Rightarrow>
             (case getitem (meta (Part_objects h part)) ''parameters'' of
                Inl e \<Rightarrow> (Inl e, h)
              | Inr ps \<Rightarrow>
                  (Inr (Some (''<'' @ r @ ''> USE TOOL '' @ fmt f @ '', WITH PARAMS '' @ fmt ps)),
                   h)))
      else (Inr None, h))"

text \<open>
  The list comprehension: each call runs in the store the call before it left.
\<close>

fun pack_lines_st ::
  "('v \<Rightarrow> string) \<Rightarrow> string \<Rightarrow> ref list \<Rightarrow> 'v heap \<Rightarrow> (exn + string option list) \<times> 'v heap" where
  "pack_lines_st fmt r [] h = (Inr [], h)"
| "pack_lines_st fmt r (p # ps) h =
     (case pack_message_line_st fmt r p h of
        (Inl e, h') \<Rightarrow> (Inl e, h')
      | (Inr l, h') \<Rightarrow>
          (case pack_lines_st fmt r ps h' of
             (Inl e, h'') \<Rightarrow> (Inl e, h'')
           | (Inr ls, h'') \<Rightarrow> (Inr (l # ls), h'')))"

definition to_string_st :: "('v \<Rightarrow> string) \<Rightarrow> ref \<Rightarrow> 'v heap \<Rightarrow> (exn + string) \<times> 'v heap" where
  "to_string_st fmt self h =
     (case pack_lines_st fmt (role_obj (MessageBlob_objects h self))
             (parts_obj (MessageBlob_objects h self)) h of
        (Inl e, h') \<Rightarrow> (Inl e, h')
      | (Inr lines, h') \<Rightarrow> (str_join [CHR 0x0A] lines, h'))"

section \<open>Properties of the message renderer\<close>

text \<open>
  The list comprehension returns a list exactly when every call returned, and then the
  list holds the results in part order.
\<close>

lemma pack_lines_Inr_iff:
  "(pack_lines fmt r ps = Inr ls) = (map (pack_message_line fmt r) ps = map Inr ls)"
proof (induction ps arbitrary: ls)
  case Nil
  then show ?case by auto
next
  case (Cons p ps)
  show ?case
  proof (cases "pack_message_line fmt r p")
    case (Inl e)
    then show ?thesis by (cases ls) auto
  next
    case (Inr l)
    note hd = this
    show ?thesis
    proof (cases "pack_lines fmt r ps")
      case (Inl e)
      with Cons.IH have "\<And>ks. map (pack_message_line fmt r) ps \<noteq> map Inr ks" by simp
      with hd Inl show ?thesis by (cases ls) auto
    next
      case (Inr ks)
      with Cons.IH [of ks] have eq: "map (pack_message_line fmt r) ps = map Inr ks" by simp
      have inj: "\<And>js. (map Inr ks = (map Inr js :: (exn + string option) list)) = (ks = js)"
        by simp
      from hd Inr eq inj show ?thesis by (cases ls) auto
    qed
  qed
qed

text \<open>Joining lines that are all strings gives the transcript of the specification.\<close>

lemma str_join_Some: "str_join [CHR 0x0A] (map Some ls) = Inr (newline_joined ls)"
proof (induction ls rule: newline_joined.induct)
  case 1
  show ?case by simp
next
  case (2 l)
  show ?case by simp
next
  case (3 l k ks)
  then show ?case by simp
qed

text \<open>\<open>join\<close> returns only when every item is a string.\<close>

lemma str_join_Inr_lines: "str_join sep xs = Inr s \<Longrightarrow> \<exists>ls. xs = map Some ls"
proof (induction xs arbitrary: s)
  case Nil
  show ?case by simp
next
  case (Cons x xs)
  from Cons.prems obtain l where x: "x = Some l" by (cases x) auto
  show ?case
  proof (cases "xs = []")
    case True
    with x have "x # xs = map Some [l]" by simp
    then show ?thesis by (rule exI)
  next
    case False
    with Cons.prems x obtain t where "str_join sep xs = Inr t"
      by (auto split: sum.splits)
    with Cons.IH obtain ks where "xs = map Some ks" by blast
    with x have "x # xs = map Some (l # ks)" by simp
    then show ?thesis by (rule exI)
  qed
qed

text \<open>
  C5. Rendering never raises: for every role and every list of parts, \<open>to_string\<close>
  completes and returns a string. The code does not keep this for a part of kind
  \<open>tool-result\<close>: \<open>pack_message_line\<close> returns \<open>None\<close> for it, and \<open>join\<close> raises TypeError
  on that item. The theorem evaluates the code on a message whose only part is of kind
  \<open>tool-result\<close>.
\<close>

theorem to_string_tool_result_raises:
  "to_string fmt \<lparr>message_id = i, role = r,
         parts = [\<lparr>type_p = ''tool-result'', text_p = t, filename = f, meta = mt\<rparr>]\<rparr>
       = Inl TypeError"
  by (simp add: to_string_def pack_message_line_def STRING_TYPES_def)

text \<open>
  C6. For every role and part, \<open>pack_message_line\<close> renders a part whose kind is outside
  text, tool-call and tool-result as \<open><role> [kind file: filename]\<close>, a text part as
  \<open><role> text\<close>, and a tool-call part, whose metadata holds \<open>function_name\<close> and
  \<open>parameters\<close> as the data model requires, as
  \<open><role> USE TOOL function_name, WITH PARAMS parameters\<close>.
\<close>

theorem pack_message_line_rules:
  "(type_p part \<notin> {''text'', ''tool-call'', ''tool-result''} \<longrightarrow>
      pack_message_line fmt r part =
        Inr (Some (''<'' @ r @ ''> ['' @ type_p part @ '' file: '' @ filename part @ '']'')))
   \<and> (type_p part = ''text'' \<longrightarrow>
      pack_message_line fmt r part = Inr (Some (''<'' @ r @ ''> '' @ text_p part)))
   \<and> (type_p part = ''tool-call'' \<longrightarrow> meta part ''function_name'' = Some f \<longrightarrow>
       meta part ''parameters'' = Some ps \<longrightarrow>
      pack_message_line fmt r part =
        Inr (Some (''<'' @ r @ ''> USE TOOL '' @ fmt f @ '', WITH PARAMS '' @ fmt ps)))"
  by (simp add: pack_message_line_def STRING_TYPES_def getitem_def)

theorem pack_message_line_rules_witness:
  "pack_message_line (\<lambda>v. v) ''user''
      \<lparr>type_p = ''file'', text_p = [], filename = ''a.png'', meta = Map.empty\<rparr>
     = Inr (Some ''<user> [file file: a.png]'')
   \<and> pack_message_line (\<lambda>v. v) ''user''
      \<lparr>type_p = ''text'', text_p = ''hi'', filename = [], meta = Map.empty\<rparr>
     = Inr (Some ''<user> hi'')
   \<and> pack_message_line (\<lambda>v. v) ''user''
      \<lparr>type_p = ''tool-call'', text_p = [], filename = [],
       meta = [''function_name'' \<mapsto> ''search'', ''parameters'' \<mapsto> ''{q: x}'']\<rparr>
     = Inr (Some ''<user> USE TOOL search, WITH PARAMS {q: x}'')"
  using
    pack_message_line_rules [where part = "\<lparr>type_p = ''file'', text_p = [], filename = ''a.png'', meta = Map.empty\<rparr>"
      and fmt = "\<lambda>v. v" and r = "''user''"]
    pack_message_line_rules [where part = "\<lparr>type_p = ''text'', text_p = ''hi'', filename = [], meta = Map.empty\<rparr>"
      and fmt = "\<lambda>v. v" and r = "''user''"]
    pack_message_line_rules [where part = "\<lparr>type_p = ''tool-call'', text_p = [], filename = [],
       meta = [''function_name'' \<mapsto> ''search'', ''parameters'' \<mapsto> ''{q: x}'']\<rparr>"
      and f = "''search''" and ps = "''{q: x}''" and fmt = "\<lambda>v. v" and r = "''user''"]
  by simp

text \<open>
  C7. For every role and every part of kind \<open>tool-result\<close>, \<open>pack_message_line\<close> produces
  no line: it passes all three guards and returns \<open>None\<close>.
\<close>

theorem tool_result_returns_None:
  "type_p part = ''tool-result'' \<Longrightarrow> pack_message_line fmt r part = Inr None"
  by (simp add: pack_message_line_def STRING_TYPES_def)

theorem tool_result_returns_None_witness:
  "pack_message_line (\<lambda>v. v) ''assistant''
      \<lparr>type_p = ''tool-result'', text_p = ''42'', filename = [], meta = Map.empty\<rparr> = Inr None"
  using tool_result_returns_None
    [where part = "\<lparr>type_p = ''tool-result'', text_p = ''42'', filename = [], meta = Map.empty\<rparr>"
       and fmt = "\<lambda>v. v" and r = "''assistant''"]
  by simp

text \<open>
  C8. For every message, \<open>to_string\<close> is the newline-joined sequence of the lines that
  \<open>pack_message_line\<close> gives for its parts, in part order: it returns the string \<open>s\<close>
  exactly when every part renders to a line and \<open>s\<close> is these lines joined by newlines.
  In particular the message with role \<open>user\<close> and the single text part \<open>hi\<close> renders to
  \<open><user> hi\<close>.
\<close>

theorem to_string_newline_joined:
  "(to_string fmt m = Inr s) =
     (\<exists>ls. map (pack_message_line fmt (role m)) (parts m) = map (\<lambda>l. Inr (Some l)) ls
           \<and> s = newline_joined ls)
   \<and> to_string fmt \<lparr>message_id = i, role = ''user'',
         parts = [\<lparr>type_p = ''text'', text_p = ''hi'', filename = f, meta = mt\<rparr>]\<rparr>
       = Inr ''<user> hi''"
proof (intro conjI)
  show "(to_string fmt m = Inr s) =
     (\<exists>ls. map (pack_message_line fmt (role m)) (parts m) = map (\<lambda>l. Inr (Some l)) ls
           \<and> s = newline_joined ls)"
  proof
    assume a: "to_string fmt m = Inr s"
    then obtain xs where xs: "pack_lines fmt (role m) (parts m) = Inr xs"
      and j: "str_join [CHR 0x0A] xs = Inr s"
      by (auto simp: to_string_def split: sum.splits)
    from j obtain ls where ls: "xs = map Some ls" using str_join_Inr_lines by blast
    with j have "s = newline_joined ls" by (simp add: str_join_Some)
    moreover from xs ls have "map (pack_message_line fmt (role m)) (parts m) = map (\<lambda>l. Inr (Some l)) ls"
      by (simp add: pack_lines_Inr_iff)
    ultimately show "\<exists>ls. map (pack_message_line fmt (role m)) (parts m) = map (\<lambda>l. Inr (Some l)) ls
             \<and> s = newline_joined ls" by blast
  next
    assume "\<exists>ls. map (pack_message_line fmt (role m)) (parts m) = map (\<lambda>l. Inr (Some l)) ls
             \<and> s = newline_joined ls"
    then obtain ls where m: "map (pack_message_line fmt (role m)) (parts m) = map (\<lambda>l. Inr (Some l)) ls"
      and s: "s = newline_joined ls" by blast
    from m have "map (pack_message_line fmt (role m)) (parts m) = map Inr (map Some ls)" by simp
    then have "pack_lines fmt (role m) (parts m) = Inr (map Some ls)"
      by (simp only: pack_lines_Inr_iff)
    with s show "to_string fmt m = Inr s" by (simp add: to_string_def str_join_Some)
  qed
next
  show "to_string fmt \<lparr>message_id = i, role = ''user'',
         parts = [\<lparr>type_p = ''text'', text_p = ''hi'', filename = f, meta = mt\<rparr>]\<rparr>
       = Inr ''<user> hi''"
    by (simp add: to_string_def pack_message_line_def STRING_TYPES_def)
qed

text \<open>On the store, rendering a part reads the part and returns the store as it was.\<close>

lemma pack_message_line_st_reads:
  "pack_message_line_st fmt r p h = (pack_message_line fmt r (Part_objects h p), h)"
  by (simp add: pack_message_line_st_def pack_message_line_def split: sum.splits)

text \<open>The comprehension reads the parts in order and returns the store as it was.\<close>

lemma pack_lines_st_reads:
  "pack_lines_st fmt r ps h = (pack_lines fmt r (map (Part_objects h) ps), h)"
proof (induction ps arbitrary: h)
  case Nil
  show ?case by simp
next
  case (Cons p ps)
  show ?case
  proof (cases "pack_message_line fmt r (Part_objects h p)")
    case (Inl e)
    then show ?thesis by (simp add: pack_message_line_st_reads)
  next
    case (Inr l)
    then show ?thesis
      by (simp add: pack_message_line_st_reads Cons.IH split: sum.splits)
  qed
qed

text \<open>
  On the store, \<open>to_string\<close> is the renderer of the values it reads, and returns the store
  as it was.
\<close>

lemma to_string_st_reads:
  "to_string_st fmt self h =
     (to_string fmt \<lparr>message_id = message_id_obj (MessageBlob_objects h self),
                     role = role_obj (MessageBlob_objects h self),
                     parts = map (Part_objects h) (parts_obj (MessageBlob_objects h self))\<rparr>, h)"
  by (simp add: to_string_st_def to_string_def pack_lines_st_reads split: sum.splits)

text \<open>
  C9. Rendering is deterministic and free of side effects. Run on the object store,
  \<open>pack_message_line\<close> and \<open>to_string\<close> leave the store and the printed lines exactly as
  they found them, so a second invocation gives what the first gave; and the output is
  fixed by the role and the parts that are read: two invocations on identical role and
  parts give identical output, whatever the two stores hold otherwise and whichever
  objects carry the role and the parts.
\<close>

theorem rendering_deterministic_effect_free:
  "snd (pack_message_line_st fmt r p h) = h
   \<and> snd (to_string_st fmt self h) = h
   \<and> to_string_st fmt self (snd (to_string_st fmt self h)) = to_string_st fmt self h
   \<and> fst (to_string_st fmt self h)
       = to_string fmt \<lparr>message_id = message_id_obj (MessageBlob_objects h self),
                        role = role_obj (MessageBlob_objects h self),
                        parts = map (Part_objects h) (parts_obj (MessageBlob_objects h self))\<rparr>
   \<and> (Part_objects h p = Part_objects h' p' \<longrightarrow>
        fst (pack_message_line_st fmt r p h) = fst (pack_message_line_st fmt r p' h'))
   \<and> (role_obj (MessageBlob_objects h self) = role_obj (MessageBlob_objects h' self') \<longrightarrow>
       map (Part_objects h) (parts_obj (MessageBlob_objects h self))
         = map (Part_objects h') (parts_obj (MessageBlob_objects h' self')) \<longrightarrow>
        fst (to_string_st fmt self h) = fst (to_string_st fmt self' h'))"
proof (intro conjI impI)
  show "snd (pack_message_line_st fmt r p h) = h"
    by (simp add: pack_message_line_st_reads)
  show same: "snd (to_string_st fmt self h) = h"
    by (simp add: to_string_st_reads)
  show "to_string_st fmt self (snd (to_string_st fmt self h)) = to_string_st fmt self h"
    by (simp only: same)
  show "fst (to_string_st fmt self h)
       = to_string fmt \<lparr>message_id = message_id_obj (MessageBlob_objects h self),
                        role = role_obj (MessageBlob_objects h self),
                        parts = map (Part_objects h) (parts_obj (MessageBlob_objects h self))\<rparr>"
    by (simp add: to_string_st_reads)
next
  assume "Part_objects h p = Part_objects h' p'"
  then show "fst (pack_message_line_st fmt r p h) = fst (pack_message_line_st fmt r p' h')"
    by (simp add: pack_message_line_st_reads)
next
  assume "role_obj (MessageBlob_objects h self) = role_obj (MessageBlob_objects h' self')"
    and "map (Part_objects h) (parts_obj (MessageBlob_objects h self))
         = map (Part_objects h') (parts_obj (MessageBlob_objects h' self'))"
  then show "fst (to_string_st fmt self h) = fst (to_string_st fmt self' h')"
    by (simp add: to_string_st_reads to_string_def)
qed

theorem rendering_deterministic_effect_free_witness:
  "fst (to_string_st (\<lambda>v. v) 0
      \<lparr>Part_objects = (\<lambda>_. \<lparr>type_p = ''text'', text_p = ''hi'', filename = [],
                                meta = (Map.empty :: string \<rightharpoonup> string)\<rparr>),
       MessageBlob_objects = (\<lambda>_. \<lparr>message_id_obj = ''m-1'', role_obj = ''user'', parts_obj = [0]\<rparr>),
       printed = []\<rparr>)
   = fst (to_string_st (\<lambda>v. v) 1
      \<lparr>Part_objects = (\<lambda>_. \<lparr>type_p = ''text'', text_p = ''hi'', filename = [],
                                meta = (Map.empty :: string \<rightharpoonup> string)\<rparr>)
            (9 := \<lparr>type_p = ''tool-result'', text_p = [], filename = [], meta = Map.empty\<rparr>),
       MessageBlob_objects = (\<lambda>_. \<lparr>message_id_obj = ''m-2'', role_obj = ''user'', parts_obj = [4]\<rparr>),
       printed = [''earlier line'']\<rparr>)
   \<and> fst (pack_message_line_st (\<lambda>v. v) ''user'' 0
      \<lparr>Part_objects = (\<lambda>_. \<lparr>type_p = ''text'', text_p = ''hi'', filename = [],
                                meta = (Map.empty :: string \<rightharpoonup> string)\<rparr>),
       MessageBlob_objects = (\<lambda>_. \<lparr>message_id_obj = ''m-1'', role_obj = ''user'', parts_obj = [0]\<rparr>),
       printed = []\<rparr>)
   = fst (pack_message_line_st (\<lambda>v. v) ''user'' 4
      \<lparr>Part_objects = (\<lambda>_. \<lparr>type_p = ''text'', text_p = ''hi'', filename = [],
                                meta = (Map.empty :: string \<rightharpoonup> string)\<rparr>)
            (9 := \<lparr>type_p = ''tool-result'', text_p = [], filename = [], meta = Map.empty\<rparr>),
       MessageBlob_objects = (\<lambda>_. \<lparr>message_id_obj = ''m-2'', role_obj = ''user'', parts_obj = [4]\<rparr>),
       printed = [''earlier line'']\<rparr>)"
proof -
  let ?hi = "\<lparr>type_p = ''text'', text_p = ''hi'', filename = [],
              meta = (Map.empty :: string \<rightharpoonup> string)\<rparr>"
  let ?h = "\<lparr>Part_objects = (\<lambda>_. ?hi),
       MessageBlob_objects = (\<lambda>_. \<lparr>message_id_obj = ''m-1'', role_obj = ''user'', parts_obj = [0]\<rparr>),
       printed = []\<rparr>"
  let ?h' = "\<lparr>Part_objects = (\<lambda>_. ?hi)
            (9 := \<lparr>type_p = ''tool-result'', text_p = [], filename = [], meta = Map.empty\<rparr>),
       MessageBlob_objects = (\<lambda>_. \<lparr>message_id_obj = ''m-2'', role_obj = ''user'', parts_obj = [4]\<rparr>),
       printed = [''earlier line'']\<rparr>"
  note th = rendering_deterministic_effect_free
    [where fmt = "\<lambda>v. v" and r = "''user''" and p = 0 and p' = 4 and self = 0 and self' = 1
       and h = ?h and h' = ?h']
  have part: "Part_objects ?h 0 = Part_objects ?h' 4"
    by simp
  have role: "role_obj (MessageBlob_objects ?h 0) = role_obj (MessageBlob_objects ?h' 1)"
    by simp
  have parts: "map (Part_objects ?h) (parts_obj (MessageBlob_objects ?h 0))
         = map (Part_objects ?h') (parts_obj (MessageBlob_objects ?h' 1))"
    by simp
  from th have first: "Part_objects ?h 0 = Part_objects ?h' 4 \<longrightarrow>
      fst (pack_message_line_st (\<lambda>v. v) ''user'' 0 ?h)
      = fst (pack_message_line_st (\<lambda>v. v) ''user'' 4 ?h')"
    by (elim conjE)
  from th have second: "role_obj (MessageBlob_objects ?h 0) = role_obj (MessageBlob_objects ?h' 1) \<longrightarrow>
      map (Part_objects ?h) (parts_obj (MessageBlob_objects ?h 0))
         = map (Part_objects ?h') (parts_obj (MessageBlob_objects ?h' 1)) \<longrightarrow>
      fst (to_string_st (\<lambda>v. v) 0 ?h) = fst (to_string_st (\<lambda>v. v) 1 ?h')"
    by (elim conjE)
  from first part have one: "fst (pack_message_line_st (\<lambda>v. v) ''user'' 0 ?h)
      = fst (pack_message_line_st (\<lambda>v. v) ''user'' 4 ?h')"
    by (rule mp)
  from second role have "map (Part_objects ?h) (parts_obj (MessageBlob_objects ?h 0))
         = map (Part_objects ?h') (parts_obj (MessageBlob_objects ?h' 1)) \<longrightarrow>
      fst (to_string_st (\<lambda>v. v) 0 ?h) = fst (to_string_st (\<lambda>v. v) 1 ?h')"
    by (rule mp)
  from this parts have two: "fst (to_string_st (\<lambda>v. v) 0 ?h) = fst (to_string_st (\<lambda>v. v) 1 ?h')"
    by (rule mp)
  from two one show ?thesis by (rule conjI)
qed

text \<open>
  C10. For every role, a message with an empty list of parts renders to the empty
  string: \<open>to_string\<close> neither fails nor produces a placeholder line.
\<close>

theorem empty_parts_render_empty:
  "parts m = [] \<Longrightarrow> to_string fmt m = Inr []"
  by (simp add: to_string_def)

theorem empty_parts_render_empty_witness:
  "to_string (\<lambda>v. v) \<lparr>message_id = ''m-1'', role = ''user'', parts = []\<rparr> = Inr []"
  using empty_parts_render_empty
    [where m = "\<lparr>message_id = ''m-1'', role = ''user'', parts = []\<rparr>" and fmt = "\<lambda>v. v"]
  by simp

section \<open>Properties of the health endpoint\<close>

text \<open>
  C2. The health endpoint returns \<open>ok\<close> if and only if all three health checks (queue,
  storage, blob store) return true; otherwise it returns the failure label of the first
  unhealthy collaborator in check order, so turning any single check to false turns the
  result away from \<open>ok\<close>.
\<close>

theorem health_ok_iff_all_healthy:
  "(health queue store blob = ''ok'') = (health_check queue \<and> health_check store \<and> health_check blob)
   \<and> (\<not> health_check queue \<longrightarrow> health queue store blob = ''MQ consumer error'')
   \<and> (health_check queue \<longrightarrow> \<not> health_check store \<longrightarrow> health queue store blob = ''DB client error'')
   \<and> (health_check queue \<longrightarrow> health_check store \<longrightarrow> \<not> health_check blob \<longrightarrow>
        health queue store blob = ''S3 client error'')
   \<and> health (queue\<lparr>health_check := False\<rparr>) store blob \<noteq> ''ok''
   \<and> health queue (store\<lparr>health_check := False\<rparr>) blob \<noteq> ''ok''
   \<and> health queue store (blob\<lparr>health_check := False\<rparr>) \<noteq> ''ok''"
  by (simp add: health_def)

theorem health_ok_iff_all_healthy_witness:
  "health \<lparr>health_check = False\<rparr> \<lparr>health_check = False\<rparr> \<lparr>health_check = True\<rparr> = ''MQ consumer error''
   \<and> health \<lparr>health_check = True\<rparr> \<lparr>health_check = False\<rparr> \<lparr>health_check = False\<rparr> = ''DB client error''
   \<and> health \<lparr>health_check = True\<rparr> \<lparr>health_check = True\<rparr> \<lparr>health_check = False\<rparr> = ''S3 client error''
   \<and> health \<lparr>health_check = True\<rparr> \<lparr>health_check = True\<rparr> \<lparr>health_check = True\<rparr> = ''ok''"
  using
    health_ok_iff_all_healthy [where queue = "\<lparr>health_check = False\<rparr>" and store = "\<lparr>health_check = False\<rparr>"
      and blob = "\<lparr>health_check = True\<rparr>"]
    health_ok_iff_all_healthy [where queue = "\<lparr>health_check = True\<rparr>" and store = "\<lparr>health_check = False\<rparr>"
      and blob = "\<lparr>health_check = False\<rparr>"]
    health_ok_iff_all_healthy [where queue = "\<lparr>health_check = True\<rparr>" and store = "\<lparr>health_check = True\<rparr>"
      and blob = "\<lparr>health_check = False\<rparr>"]
    health_ok_iff_all_healthy [where queue = "\<lparr>health_check = True\<rparr>" and store = "\<lparr>health_check = True\<rparr>"
      and blob = "\<lparr>health_check = True\<rparr>"]
  by simp

section \<open>Properties of the project configuration\<close>

text \<open>The first row of the selection is the first row of the table with that id.\<close>

lemma first_filter_find: "first (filter P xs) = List.find P xs"
  by (induction xs) auto

lemma first_filter_None: "(first (filter P xs) = None) = (\<forall>x\<in>set xs. \<not> P x)"
  by (induction xs) auto

text \<open>
  C4, as stated: a missing project makes \<open>get_project_config\<close> return a successful Result
  with the default configuration. On a table without the project the function returns
  the rejection \<open>Project not found\<close> instead.
\<close>

theorem missing_project_rejected_counterexample:
  "get_project_config (0::nat) Inr (Inr ([] :: nat Project list)) ''p-1''
     = Inr (Reject [''Project not found: p-1''])
   \<and> get_project_config (0::nat) Inr (Inr ([] :: nat Project list)) ''p-1'' \<noteq> Inr (resolve 0)"
  by (simp add: get_project_config_def execute_select_project_def reject_def resolve_def)

text \<open>
  C4, amended. When the project exists and has no project configuration (its \<open>configs\<close>
  is \<open>None\<close>, is empty or lacks the key \<open>project_config\<close>), \<open>get_project_config\<close> returns a
  successful Result carrying the default configuration. When no project has the id, it
  returns the rejection \<open>Project not found: project_id\<close>, and this is the only rejection
  it returns; a storage fault is raised by the session and is not turned into a Result.
\<close>

theorem get_project_config_not_found:
  "(db_session = Inr rows \<longrightarrow> List.find (\<lambda>p. id_p p = project_id) rows = Some project \<longrightarrow>
      (configs project = None \<or> configs project = Some Map.empty
        \<or> (\<exists>d. configs project = Some d \<and> d ''project_config'' = None)) \<longrightarrow>
      get_project_config default_config project_config_of db_session project_id
        = Inr (resolve default_config))
   \<and> (db_session = Inr rows \<longrightarrow> (\<forall>p\<in>set rows. id_p p \<noteq> project_id) \<longrightarrow>
      get_project_config default_config project_config_of db_session project_id
        = Inr (reject (''Project not found: '' @ project_id)))
   \<and> ((\<exists>errs. get_project_config default_config project_config_of db_session project_id
                = Inr (Reject errs))
       = (\<exists>rs. db_session = Inr rs \<and> (\<forall>p\<in>set rs. id_p p \<noteq> project_id)))
   \<and> (db_session = Inl e \<longrightarrow>
      get_project_config default_config project_config_of db_session project_id = Inl e)"
proof (intro conjI impI)
  assume "db_session = Inr rows" "List.find (\<lambda>p. id_p p = project_id) rows = Some project"
    "configs project = None \<or> configs project = Some Map.empty
        \<or> (\<exists>d. configs project = Some d \<and> d ''project_config'' = None)"
  then show "get_project_config default_config project_config_of db_session project_id
        = Inr (resolve default_config)"
    by (auto simp: get_project_config_def execute_select_project_def first_filter_find)
next
  assume "db_session = Inr rows" "\<forall>p\<in>set rows. id_p p \<noteq> project_id"
  then have "first (filter (\<lambda>p. id_p p = project_id) rows) = None"
    by (simp add: first_filter_None)
  with \<open>db_session = Inr rows\<close>
  show "get_project_config default_config project_config_of db_session project_id
        = Inr (reject (''Project not found: '' @ project_id))"
    by (simp add: get_project_config_def execute_select_project_def)
next
  show "(\<exists>errs. get_project_config default_config project_config_of db_session project_id
                = Inr (Reject errs))
       = (\<exists>rs. db_session = Inr rs \<and> (\<forall>p\<in>set rs. id_p p \<noteq> project_id))"
  proof (cases db_session)
    case (Inl e)
    then show ?thesis
      by (simp add: get_project_config_def execute_select_project_def)
  next
    case (Inr rs)
    show ?thesis
    proof (cases "first (filter (\<lambda>p. id_p p = project_id) rs)")
      case None
      with Inr show ?thesis
        by (simp add: get_project_config_def execute_select_project_def reject_def
            first_filter_None [symmetric])
    next
      case (Some p)
      then have "\<not> (\<forall>p\<in>set rs. id_p p \<noteq> project_id)"
        using first_filter_None [of "\<lambda>p. id_p p = project_id" rs] by simp
      with Inr Some show ?thesis
        by (auto simp: get_project_config_def execute_select_project_def resolve_def getitem_def
            split: option.splits sum.splits)
    qed
  qed
next
  assume "db_session = Inl e"
  then show "get_project_config default_config project_config_of db_session project_id = Inl e"
    by (simp add: get_project_config_def execute_select_project_def)
qed

theorem get_project_config_not_found_witness:
  "get_project_config (0::nat) Inr
       (Inr [\<lparr>id_p = ''p-0'', configs = Some [''project_config'' \<mapsto> (7::nat)]\<rparr>,
             \<lparr>id_p = ''p-1'', configs = None\<rparr>]) ''p-1''
     = Inr (Resolve 0)
   \<and> get_project_config (0::nat) Inr
       (Inr [\<lparr>id_p = ''p-0'', configs = Some [''project_config'' \<mapsto> (7::nat)]\<rparr>,
             \<lparr>id_p = ''p-1'', configs = None\<rparr>]) ''p-2''
     = Inr (Reject [''Project not found: p-2''])"
  using
    get_project_config_not_found [where db_session = "Inr [\<lparr>id_p = ''p-0'', configs = Some [''project_config'' \<mapsto> (7::nat)]\<rparr>,
             \<lparr>id_p = ''p-1'', configs = None\<rparr>]" and rows = "[\<lparr>id_p = ''p-0'', configs = Some [''project_config'' \<mapsto> (7::nat)]\<rparr>,
             \<lparr>id_p = ''p-1'', configs = None\<rparr>]" and project_id = "''p-1''"
          and project = "\<lparr>id_p = ''p-1'', configs = None\<rparr>" and default_config = "0::nat"
          and project_config_of = Inr]
    get_project_config_not_found [where db_session = "Inr [\<lparr>id_p = ''p-0'', configs = Some [''project_config'' \<mapsto> (7::nat)]\<rparr>,
             \<lparr>id_p = ''p-1'', configs = None\<rparr>]" and rows = "[\<lparr>id_p = ''p-0'', configs = Some [''project_config'' \<mapsto> (7::nat)]\<rparr>,
             \<lparr>id_p = ''p-1'', configs = None\<rparr>]" and project_id = "''p-2''"
          and default_config = "0::nat" and project_config_of = Inr]
  by (simp add: resolve_def reject_def)

section \<open>Properties of the session processor\<close>







text \<open>
  C3. When the fetch returns a rejection, the committed rows and the standard output
  are left as they were and no snapshot is built; when the rejection carries an error
  description, as every rejection built by \<open>Result.reject\<close> does, the function logs the
  error and returns at once.
\<close>

theorem rejected_fetch_aborts:
  "fetch (db w) session_id ''pending'' = Reject errs \<Longrightarrow>
     db (snd (process_session_pending_message fmt fetch session_id w)) = db w
     \<and> stdout (snd (process_session_pending_message fmt fetch session_id w)) = stdout w
     \<and> (\<forall>md. fst (with_body fetch session_id (db w) (LOG w)) \<noteq> Inr (Fall_through md))
     \<and> (errs \<noteq> [] \<longrightarrow>
          fst (process_session_pending_message fmt fetch session_id w) = Inr ()
          \<and> LOG (snd (process_session_pending_message fmt fetch session_id w))
              = LOG w @ [LOG_error ''Exception while fetching session messages: '' errs]
          \<and> fst (with_body fetch session_id (db w) (LOG w)) = Inr Return_None)"
  by (simp add: process_session_pending_message_def with_body_def)

theorem rejected_fetch_aborts_witness:
  "process_session_pending_message (\<lambda>v. v) (\<lambda>s i st. Reject [''connection lost'']) ''s-1''
        \<lparr>db = (\<lambda>_. \<lparr>id_m = ''m-0'', role_m = ''user'',
                    parts_m = ([] :: string Part list),
                    session_task_process_status = PENDING\<rparr>),
         LOG = [], stdout = []\<rparr>
    = (Inr (),
        \<lparr>db = (\<lambda>_. \<lparr>id_m = ''m-0'', role_m = ''user'',
                    parts_m = [],
                    session_task_process_status = PENDING\<rparr>),
         LOG = [LOG_error ''Exception while fetching session messages: '' [''connection lost'']],
         stdout = []\<rparr>)"
proof -
  let ?row = "\<lparr>id_m = ''m-0'', role_m = ''user'', parts_m = ([] :: string Part list),
                session_task_process_status = PENDING\<rparr>"
  let ?w = "\<lparr>db = (\<lambda>_. ?row), LOG = [], stdout = []\<rparr>"
  let ?fetch = "\<lambda>(s :: string session) (i :: asUUID) (st :: string).
                  (Reject [''connection lost''] :: ref list Result)"
  let ?out = "process_session_pending_message (\<lambda>v. v) ?fetch ''s-1'' ?w"
  have rejected: "?fetch (db ?w) ''s-1'' ''pending'' = Reject [''connection lost'']"
    by (rule refl)
  note th = rejected_fetch_aborts
    [where fetch = ?fetch and w = ?w and session_id = "''s-1''"
       and errs = "[''connection lost'']" and fmt = "\<lambda>v. v", OF rejected]
  from th have d: "db (snd ?out) = db ?w" by (elim conjE)
  from th have o: "stdout (snd ?out) = stdout ?w" by (elim conjE)
  from th have l: "fst ?out = Inr ()
     \<and> LOG (snd ?out) = LOG ?w @ [LOG_error ''Exception while fetching session messages: ''
                                   [''connection lost'']]"
    by simp
  have "snd ?out = \<lparr>db = db (snd ?out), LOG = LOG (snd ?out), stdout = stdout (snd ?out)\<rparr>"
    by simp
  with d o l have "snd ?out = \<lparr>db = (\<lambda>_. ?row),
       LOG = [LOG_error ''Exception while fetching session messages: '' [''connection lost'']],
       stdout = []\<rparr>"
    by simp
  with l show ?thesis by (simp add: prod_eq_iff)
qed

end
